theory Spec2Isabelle
  imports Complex_Main
begin

section \<open>The custom print order model (printing.custom.order)\<close>

text \<open>
  The model class \<open>PrintingCustomOrder\<close> of \<open>models/custom_order.py\<close> declares the
  fields of one table and ten methods on recordsets of it. A row is a record of the
  declared fields, a recordset (\<open>self\<close>) is a list of rows, and a method that assigns
  fields returns the rows it has updated.

  Field values are as Python has them: a \<open>Char\<close>, \<open>Text\<close>, \<open>Selection\<close> or \<open>Binary\<close>
  field holds a string or \<open>False\<close> (here \<open>None\<close>), the \<open>Integer\<close> field an unbounded
  integer, a \<open>Many2one\<close> field the id of the row it links to. A \<open>Float\<close> field holds a
  Python float. The fee is kept as the number it is: every amount of the fee table and
  every sum of them is a whole number below 31, which a float holds exactly. The prices
  are floats of the type \<open>'f\<close>, whose arithmetic is the platform's.
\<close>

subsection \<open>Rows\<close>

record 'f order =
  name :: string
  customer_id :: nat
  product_id :: nat
  custom_text :: "string option"
  custom_color :: "string option"
  custom_color_code :: "string option"
  size_field :: "string option"
  design_file :: "string option"
  design_filename :: "string option"
  customization_fee :: real
  total_price :: 'f
  quantity :: int
  state :: "string option"
  notes_field :: "string option"

text \<open>
  The fields \<open>size\<close> and \<open>notes\<close> are named \<open>size_field\<close> and \<open>notes_field\<close> here:
  \<open>size\<close> is a constant of HOL and \<open>notes\<close> a keyword of Isabelle.
  \<open>base_price\<close> is declared \<open>related='product_id.list_price'\<close> and is not stored: it
  is the list price of the linked product when it is read. The product table belongs to
  another module, so the price list is a parameter.
\<close>

type_synonym 'f price_list = "nat \<Rightarrow> 'f"

definition base_price :: "'f price_list \<Rightarrow> 'f order \<Rightarrow> 'f" where
  "base_price list_price order = list_price (product_id order)"

text \<open>Truth value of a field in a Python condition: \<open>False\<close> and the empty string are false.\<close>

fun truthy :: "string option \<Rightarrow> bool" where
  "truthy None = False"
| "truthy (Some s) = (s \<noteq> [])"

subsection \<open>What the platform fixes\<close>

text \<open>
  Two things that the methods rely on are fixed by the platform and the language, not by
  the source, and are parameters of the model.

  The first is the arithmetic of floats: the sum and the product of two floats, and the
  float of a number (of the fee, and of the integer \<open>quantity\<close>, which Python converts
  before it multiplies).

  The second is the order in which the platform runs the two constraint methods when a
  write triggers both: each raises its own exception, and the one that runs first is
  the one the caller sees.
\<close>

datatype check_order = QuantityFirst | CustomTextFirst

record 'f platform =
  float_add :: "'f \<Rightarrow> 'f \<Rightarrow> 'f"
  float_mul :: "'f \<Rightarrow> 'f \<Rightarrow> 'f"
  float_of :: "real \<Rightarrow> 'f"
  constraint_order :: check_order

subsection \<open>Python's floats\<close>

text \<open>
  The floats of Python are the binary64 numbers of IEEE 754: a finite float is a
  number \<open>m * 2 ^ e\<close> with \<open>\<bar>m\<bar> < 2 ^ 53\<close> and \<open>- 1074 \<le> e \<le> 971\<close>, and there are two
  infinities and the value that is not a number. The two zeros compare equal and are
  one value here. Every operation rounds its exact result to the nearest float, a tie
  to the float with an even \<open>m\<close>, and a result of magnitude \<open>2 ^ 1024\<close> or more after
  rounding is infinite.
\<close>

datatype double = Finite real | PosInf | NegInf | NaN

text \<open>The integer \<open>e\<close> with \<open>2 ^ e \<le> n < 2 ^ (e + 1)\<close>, for an integer \<open>n \<ge> 1\<close>.\<close>

function log2_int :: "int \<Rightarrow> int" where
  "log2_int n = (if n < 2 then 0 else 1 + log2_int (n div 2))"
  by pat_completeness auto
termination
  by (relation "measure nat") auto

declare log2_int.simps [simp del]

text \<open>
  The integer \<open>e\<close> with \<open>2 ^ e \<le> a < 2 ^ (e + 1)\<close>, for a number \<open>a > 0\<close>: below 1 it
  is minus the least \<open>k\<close> with \<open>1 / a \<le> 2 ^ k\<close>.
\<close>

definition binary_exponent :: "real \<Rightarrow> int" where
  "binary_exponent a =
     (if 1 \<le> a then log2_int \<lfloor>a\<rfloor> else - (log2_int (\<lceil>1 / a\<rceil> - 1) + 1))"

definition round_half_even :: "real \<Rightarrow> int" where
  "round_half_even x =
     (let f = \<lfloor>x\<rfloor>; d = x - of_int f
      in if d < 1 / 2 then f else if 1 / 2 < d then f + 1 else if even f then f else f + 1)"

text \<open>
  The float nearest to a number: 53 significant bits at the exponent of the number,
  which is no less than \<open>- 1022\<close> (below it the floats are evenly spaced).
\<close>

definition round_double :: "real \<Rightarrow> double" where
  "round_double x =
     (if x = 0 then Finite 0
      else
        (let e = max (binary_exponent \<bar>x\<bar>) (- 1022);
             u = 2 powi (e - 52);
             r = of_int (round_half_even (\<bar>x\<bar> / u)) * u
         in if 2 ^ 1024 \<le> r then (if x < 0 then NegInf else PosInf)
            else Finite (sgn x * r)))"

fun double_add :: "double \<Rightarrow> double \<Rightarrow> double" where
  "double_add (Finite x) (Finite y) = round_double (x + y)"
| "double_add NaN y = NaN"
| "double_add x NaN = NaN"
| "double_add PosInf NegInf = NaN"
| "double_add NegInf PosInf = NaN"
| "double_add PosInf y = PosInf"
| "double_add x PosInf = PosInf"
| "double_add NegInf y = NegInf"
| "double_add x NegInf = NegInf"

text \<open>The sign of a product with an infinite factor; zero times infinity is not a number.\<close>

definition signed_infinity :: "bool \<Rightarrow> real \<Rightarrow> double" where
  "signed_infinity positive y =
     (if y = 0 then NaN else if (0 < y) = positive then PosInf else NegInf)"

fun double_mul :: "double \<Rightarrow> double \<Rightarrow> double" where
  "double_mul (Finite x) (Finite y) = round_double (x * y)"
| "double_mul NaN y = NaN"
| "double_mul x NaN = NaN"
| "double_mul PosInf (Finite y) = signed_infinity True y"
| "double_mul NegInf (Finite y) = signed_infinity False y"
| "double_mul (Finite x) PosInf = signed_infinity True x"
| "double_mul (Finite x) NegInf = signed_infinity False x"
| "double_mul PosInf PosInf = PosInf"
| "double_mul NegInf NegInf = PosInf"
| "double_mul PosInf NegInf = NegInf"
| "double_mul NegInf PosInf = NegInf"

text \<open>
  The platform with Python's floats, for either order of the constraint methods.
  \<open>float_of\<close> is Python's conversion, which rounds to the nearest float; the integer of
  an \<open>Integer\<close> column is far inside the range of the floats.
\<close>

definition python_floats :: "check_order \<Rightarrow> double platform" where
  "python_floats order_of_checks =
     \<lparr>float_add = double_add, float_mul = double_mul, float_of = round_double,
      constraint_order = order_of_checks\<rparr>"

subsection \<open>Computed fields\<close>

text \<open>The dictionary \<open>size_fees\<close> of \<open>_compute_customization_fee\<close>, in the order it is written.\<close>

definition size_fees :: "(string \<times> real) list" where
  "size_fees = [(''small'', 0), (''medium'', 5), (''large'', 10), (''xlarge'', 15)]"

text \<open>
  \<open>d.get(k, default)\<close> where the key is a field value: \<open>False\<close> is no key of a
  dictionary whose keys are strings.
\<close>

definition dict_get :: "(string \<times> 'v) list \<Rightarrow> string option \<Rightarrow> 'v \<Rightarrow> 'v" where
  "dict_get d k dflt =
     (case k of
        None \<Rightarrow> dflt
      | Some key \<Rightarrow> (case map_of d key of None \<Rightarrow> dflt | Some v \<Rightarrow> v))"

text \<open>The body of the loop of \<open>_compute_customization_fee\<close>, statement by statement.\<close>

definition customization_fee_body :: "'f order \<Rightarrow> 'f order" where
  "customization_fee_body order =
     (let fee0 = 0;
          fee1 = (if truthy (custom_text order) then fee0 + 5 else fee0);
          fee2 = (if truthy (design_file order) then fee1 + 10 else fee1);
          fee3 = fee2 + dict_get size_fees (size_field order) 0
      in order\<lparr>customization_fee := fee3\<rparr>)"

fun compute_customization_fee :: "'f order list \<Rightarrow> 'f order list" where
  "compute_customization_fee [] = []"
| "compute_customization_fee (order # self) =
     customization_fee_body order # compute_customization_fee self"

text \<open>
  The body of the loop of \<open>_compute_total_price\<close>:
  \<open>(order.base_price + order.customization_fee) * order.quantity\<close>, a float sum of two
  floats, then the float product of the sum and the float of the integer.
\<close>

definition total_price_body :: "'f platform \<Rightarrow> 'f price_list \<Rightarrow> 'f order \<Rightarrow> 'f order" where
  "total_price_body pf list_price order =
     order\<lparr>total_price :=
       float_mul pf
         (float_add pf (base_price list_price order) (float_of pf (customization_fee order)))
         (float_of pf (real_of_int (quantity order)))\<rparr>"

fun compute_total_price ::
  "'f platform \<Rightarrow> 'f price_list \<Rightarrow> 'f order list \<Rightarrow> 'f order list" where
  "compute_total_price pf list_price [] = []"
| "compute_total_price pf list_price (order # self) =
     total_price_body pf list_price order # compute_total_price pf list_price self"

subsection \<open>Constraints\<close>

text \<open>
  A raised exception is a value: \<open>ValidationError\<close> with its message is what the two
  constraint methods raise; \<open>MissingRequired\<close> with the field's name stands for the
  platform's refusal of a row that lacks a field declared \<open>required=True\<close>.
\<close>

datatype error = ValidationError string | MissingRequired string

fun check_quantity :: "'f order list \<Rightarrow> error + unit" where
  "check_quantity [] = Inr ()"
| "check_quantity (order # self) =
     (if quantity order \<le> 0 then Inl (ValidationError ''Quantity must be greater than 0!'')
      else check_quantity self)"

text \<open>
  \<open>order.custom_text and len(order.custom_text) > 50\<close>: the length is read only where
  the text is a non-empty string.
\<close>

definition text_too_long :: "string option \<Rightarrow> bool" where
  "text_too_long t = (case t of None \<Rightarrow> False | Some s \<Rightarrow> s \<noteq> [] \<and> length s > 50)"

fun check_custom_text_length :: "'f order list \<Rightarrow> error + unit" where
  "check_custom_text_length [] = Inr ()"
| "check_custom_text_length (order # self) =
     (if text_too_long (custom_text order)
      then Inl (ValidationError ''Custom text cannot exceed 50 characters!'')
      else check_custom_text_length self)"

subsection \<open>The platform's write and create\<close>

text \<open>
  The dictionary \<open>vals\<close> handed to \<open>write\<close> and \<open>create\<close>: one entry per stored
  field, the two stored computed fields included, \<open>None\<close> where the key is absent. For a
  field that may hold \<open>False\<close> the entry, when present, is the field value itself
  (\<open>Some None\<close> writes \<open>False\<close>); the entry of \<open>customization_fee\<close> is the number that
  the given float stands for. \<open>base_price\<close> is not stored and has no entry: a write to
  it would be a write to the product.
\<close>

record 'f vals =
  v_name :: "string option"
  v_customer_id :: "nat option"
  v_product_id :: "nat option"
  v_custom_text :: "string option option"
  v_custom_color :: "string option option"
  v_custom_color_code :: "string option option"
  v_size :: "string option option"
  v_design_file :: "string option option"
  v_design_filename :: "string option option"
  v_customization_fee :: "real option"
  v_total_price :: "'f option"
  v_quantity :: "int option"
  v_state :: "string option option"
  v_notes :: "string option option"

definition empty_vals :: "'f vals" where
  "empty_vals =
     \<lparr>v_name = None, v_customer_id = None, v_product_id = None, v_custom_text = None,
      v_custom_color = None, v_custom_color_code = None, v_size = None,
      v_design_file = None, v_design_filename = None, v_customization_fee = None,
      v_total_price = None, v_quantity = None,
      v_state = None, v_notes = None\<rparr>"

text \<open>\<open>key in vals\<close>, and \<open>vals.get(key, default)\<close>.\<close>

fun given :: "'a option \<Rightarrow> bool" where
  "given None = False"
| "given (Some x) = True"

fun get_or :: "'a option \<Rightarrow> 'a \<Rightarrow> 'a" where
  "get_or None dflt = dflt"
| "get_or (Some x) dflt = x"

text \<open>
  The methods of the model call the write path of the platform's object-relational
  layer (\<open>self.write\<close>, here \<open>orm_write\<close>, and \<open>super().create\<close>, here \<open>orm_create\<close>),
  which is no part of the repository. It is modelled as section 4.1 of the
  specification gives it, step by step: assignment, recomputation, validation.
\<close>

text \<open>
  Modelled from the spec: the field assignment of the platform's \<open>write\<close>. Every key
  of \<open>vals\<close> is assigned to the row; the other fields stay.
\<close>

definition assign :: "'f vals \<Rightarrow> 'f order \<Rightarrow> 'f order" where
  "assign vals order =
     order\<lparr>name := get_or (v_name vals) (name order),
           customer_id := get_or (v_customer_id vals) (customer_id order),
           product_id := get_or (v_product_id vals) (product_id order),
           custom_text := get_or (v_custom_text vals) (custom_text order),
           custom_color := get_or (v_custom_color vals) (custom_color order),
           custom_color_code := get_or (v_custom_color_code vals) (custom_color_code order),
           size_field := get_or (v_size vals) (size_field order),
           design_file := get_or (v_design_file vals) (design_file order),
           design_filename := get_or (v_design_filename vals) (design_filename order),
           customization_fee := get_or (v_customization_fee vals) (customization_fee order),
           total_price := get_or (v_total_price vals) (total_price order),
           quantity := get_or (v_quantity vals) (quantity order),
           state := get_or (v_state vals) (state order),
           notes_field := get_or (v_notes vals) (notes_field order)\<rparr>"

text \<open>
  Modelled from the spec: the platform's trigger of a computed field. A write that
  touches a dependency of the field recomputes it; the dependencies are those of
  \<open>@api.depends('custom_text', 'design_file', 'size')\<close> and of
  \<open>@api.depends('base_price', 'customization_fee', 'quantity')\<close>, where \<open>base_price\<close>
  follows \<open>product_id\<close> and \<open>customization_fee\<close> changes when it is written or
  recomputed. A change of the list price of the product is no write to the order and
  triggers nothing: section 4.1 has it reach the order on the next recomputation, not
  the totals already stored.
\<close>

definition touches_fee :: "'f vals \<Rightarrow> bool" where
  "touches_fee vals =
     (given (v_custom_text vals) \<or> given (v_design_file vals) \<or> given (v_size vals))"

definition touches_total :: "'f vals \<Rightarrow> bool" where
  "touches_total vals =
     (given (v_product_id vals) \<or> given (v_customization_fee vals) \<or> given (v_quantity vals)
      \<or> touches_fee vals)"

text \<open>
  Modelled from the spec: the platform's recomputation, synchronous and in dependency
  order (the fee before the total), by the two compute methods of the source.
\<close>

definition recompute ::
  "'f platform \<Rightarrow> 'f price_list \<Rightarrow> 'f vals \<Rightarrow> 'f order list \<Rightarrow> 'f order list" where
  "recompute pf list_price vals self =
     (let self1 = (if touches_fee vals then compute_customization_fee self else self)
      in if touches_total vals then compute_total_price pf list_price self1 else self1)"


text \<open>
  Two checks in a row: the exception of the first is the one raised, and the second
  runs only when the first has passed.
\<close>

definition and_then :: "error + unit \<Rightarrow> error + unit \<Rightarrow> error + unit" where
  "and_then first second = (case first of Inl e \<Rightarrow> Inl e | Inr u \<Rightarrow> second)"

text \<open>
  Modelled from the spec: the platform's validation. A constraint method runs when a
  field it names (\<open>@api.constrains('quantity')\<close>, \<open>@api.constrains('custom_text')\<close>) is
  among the keys of \<open>vals\<close>. Each rule is checked by its own method; when both are
  triggered the platform runs them one after the other, in the order it fixes.
\<close>

definition validate_fields :: "'f platform \<Rightarrow> 'f vals \<Rightarrow> 'f order list \<Rightarrow> error + unit" where
  "validate_fields pf vals self =
     (let on_quantity = (if given (v_quantity vals) then check_quantity self else Inr ());
          on_custom_text =
            (if given (v_custom_text vals) then check_custom_text_length self else Inr ())
      in case constraint_order pf of
           QuantityFirst \<Rightarrow> and_then on_quantity on_custom_text
         | CustomTextFirst \<Rightarrow> and_then on_custom_text on_quantity)"

text \<open>
  Modelled from the spec: the platform's \<open>write\<close>. The fields are assigned to every row
  of the recordset, the computed fields are recomputed before the write is complete,
  and the constraints run before anything is committed: a failure rejects the write as
  a whole, and the outcome is the exception alone.
\<close>

definition orm_write ::
  "'f platform \<Rightarrow> 'f price_list \<Rightarrow> 'f vals \<Rightarrow> 'f order list \<Rightarrow> error + 'f order list" where
  "orm_write pf list_price vals self =
     (let rows = recompute pf list_price vals (map (assign vals) self)
      in case validate_fields pf vals rows of
           Inl e \<Rightarrow> Inl e
         | Inr u \<Rightarrow> Inr rows)"

text \<open>
  Modelled from the spec: the row that the platform's \<open>create\<close> builds. It takes the
  entries of \<open>vals\<close> and, for an absent key, the default the field declares (\<open>'New'\<close>,
  \<open>'white'\<close>, \<open>'medium'\<close>, \<open>1\<close>, \<open>'draft'\<close>, otherwise \<open>False\<close>); the computed fields are
  yet to be computed, from the inputs of the row (section 4.1).
\<close>

definition new_row :: "'f platform \<Rightarrow> 'f vals \<Rightarrow> nat \<Rightarrow> nat \<Rightarrow> 'f order" where
  "new_row pf vals customer product =
     \<lparr>name = get_or (v_name vals) ''New'',
      customer_id = customer,
      product_id = product,
      custom_text = get_or (v_custom_text vals) None,
      custom_color = get_or (v_custom_color vals) (Some ''white''),
      custom_color_code = get_or (v_custom_color_code vals) None,
      size_field = get_or (v_size vals) (Some ''medium''),
      design_file = get_or (v_design_file vals) None,
      design_filename = get_or (v_design_filename vals) None,
      customization_fee = 0,
      total_price = float_of pf 0,
      quantity = get_or (v_quantity vals) 1,
      state = get_or (v_state vals) (Some ''draft''),
      notes_field = get_or (v_notes vals) None\<rparr>"

text \<open>
  Modelled from the spec: the platform's \<open>create\<close>, reached as \<open>super().create(vals)\<close>.
  \<open>customer_id\<close> and \<open>product_id\<close> are required and have no default. Both computed
  fields are computed and both constraints run, in the platform's order, before the row
  exists for any reader.
\<close>

definition orm_create :: "'f platform \<Rightarrow> 'f price_list \<Rightarrow> 'f vals \<Rightarrow> error + 'f order" where
  "orm_create pf list_price vals =
     (case v_customer_id vals of
        None \<Rightarrow> Inl (MissingRequired ''customer_id'')
      | Some customer \<Rightarrow>
     (case v_product_id vals of
        None \<Rightarrow> Inl (MissingRequired ''product_id'')
      | Some product \<Rightarrow>
          (let row = total_price_body pf list_price
                       (customization_fee_body (new_row pf vals customer product))
           in case (case constraint_order pf of
                      QuantityFirst \<Rightarrow>
                        and_then (check_quantity [row]) (check_custom_text_length [row])
                    | CustomTextFirst \<Rightarrow>
                        and_then (check_custom_text_length [row]) (check_quantity [row])) of
                Inl e \<Rightarrow> Inl e
              | Inr u \<Rightarrow> Inr row)))"



subsection \<open>The methods of the model\<close>

text \<open>
  \<open>x or 'New'\<close>, where \<open>x\<close> is what the sequence returned: a string, or \<open>False\<close> when
  there is no sequence for the code.
\<close>

definition py_or :: "string option \<Rightarrow> string \<Rightarrow> string" where
  "py_or x y = (case x of None \<Rightarrow> y | Some s \<Rightarrow> (if s = [] then y else s))"

text \<open>
  \<open>create\<close>. The sequence \<open>ir.sequence\<close> is the platform's: \<open>next_by_code\<close> is a
  parameter that takes the state of the generator and the code, and returns the next
  value with the new state. The method asks the sequence (line 180) before it calls the
  platform's create (line 181), which may raise: so the outcome, the new row or the
  exception, comes with the state in which the method leaves the generator.
\<close>

type_synonym 'g sequence = "'g \<Rightarrow> string \<Rightarrow> string option \<times> 'g"

definition create ::
  "'g sequence \<Rightarrow> 'f platform \<Rightarrow> 'f price_list \<Rightarrow> 'g \<Rightarrow> 'f vals \<Rightarrow> (error + 'f order) \<times> 'g" where
  "create next_by_code pf list_price seq vals =
     (if get_or (v_name vals) ''New'' = ''New'' then
        (let (nxt, seq') = next_by_code seq ''printing.custom.order'';
             vals' = vals\<lparr>v_name := Some (py_or nxt ''New'')\<rparr>
         in (orm_create pf list_price vals', seq'))
      else (orm_create pf list_price vals, seq))"

text \<open>
  A method that returns \<open>b\<close> after a call that may raise: the exception passes through,
  otherwise the rows the call has written come back with \<open>b\<close>.
\<close>

definition returning :: "'b \<Rightarrow> error + 'a \<Rightarrow> error + ('a \<times> 'b)" where
  "returning b res = (case res of Inl e \<Rightarrow> Inl e | Inr x \<Rightarrow> Inr (x, b))"

text \<open>The five button actions: \<open>self.write({'state': ...})\<close>, then \<open>return True\<close>.\<close>

type_synonym 'f action =
  "'f platform \<Rightarrow> 'f price_list \<Rightarrow> 'f order list \<Rightarrow> error + ('f order list \<times> bool)"

definition action_confirm :: "'f action" where
  "action_confirm pf list_price self =
     returning True
       (orm_write pf list_price (empty_vals\<lparr>v_state := Some (Some ''confirmed'')\<rparr>) self)"

definition action_start_production :: "'f action" where
  "action_start_production pf list_price self =
     returning True
       (orm_write pf list_price (empty_vals\<lparr>v_state := Some (Some ''production'')\<rparr>) self)"

definition action_mark_done :: "'f action" where
  "action_mark_done pf list_price self =
     returning True
       (orm_write pf list_price (empty_vals\<lparr>v_state := Some (Some ''done'')\<rparr>) self)"

definition action_cancel :: "'f action" where
  "action_cancel pf list_price self =
     returning True
       (orm_write pf list_price (empty_vals\<lparr>v_state := Some (Some ''cancel'')\<rparr>) self)"

definition action_reset_to_draft :: "'f action" where
  "action_reset_to_draft pf list_price self =
     returning True
       (orm_write pf list_price (empty_vals\<lparr>v_state := Some (Some ''draft'')\<rparr>) self)"

text \<open>
  The values the field \<open>state\<close> declares, in the order of the declaration, and the five
  actions in the order the class defines them.
\<close>

definition state_selection :: "string list" where
  "state_selection = [''draft'', ''confirmed'', ''production'', ''done'', ''cancel'']"

definition transitions :: "'f action list" where
  "transitions =
     [action_confirm, action_start_production, action_mark_done, action_cancel,
      action_reset_to_draft]"




section \<open>Properties\<close>

subsection \<open>The customization fee\<close>

lemma dict_get_size_fees:
  "dict_get size_fees sz 0 =
     (if sz = Some ''small'' then 0
      else if sz = Some ''medium'' then 5
      else if sz = Some ''large'' then 10
      else if sz = Some ''xlarge'' then 15
      else 0)"
  by (cases sz) (simp_all add: dict_get_def size_fees_def)

lemma fee_of_body:
  "customization_fee (customization_fee_body r) =
     (if truthy (custom_text r) then 5 else 0)
     + (if truthy (design_file r) then 10 else 0)
     + dict_get size_fees (size_field r) 0"
  by (simp add: customization_fee_body_def Let_def)

lemma compute_customization_fee_map:
  "compute_customization_fee self = map customization_fee_body self"
  by (induction self) simp_all

text \<open>
  Claim C1. The fee that \<open>_compute_customization_fee\<close> stores on each row of the
  recordset is the sum of three contributions that depend on one field each: 5 when
  \<open>custom_text\<close> is a non-empty string, 10 when \<open>design_file\<close> is a non-empty blob, and
  the surcharge of the size (0 for small, 5 for medium, 10 for large, 15 for xlarge,
  0 for any other value, \<open>False\<close> included). The three examples of the specification
  follow: 0, 5 and 30.
\<close>

theorem customization_fee_is_sum:
  "map customization_fee (compute_customization_fee self) =
     map (\<lambda>r. (if truthy (custom_text r) then 5 else 0)
             + (if truthy (design_file r) then 10 else 0)
             + (if size_field r = Some ''small'' then 0
                else if size_field r = Some ''medium'' then 5
                else if size_field r = Some ''large'' then 10
                else if size_field r = Some ''xlarge'' then 15
                else 0)) self
   \<and> customization_fee (customization_fee_body
        (r\<lparr>custom_text := Some '''', design_file := None, size_field := Some ''small''\<rparr>)) = 0
   \<and> customization_fee (customization_fee_body
        (r\<lparr>custom_text := Some ''Hi'', design_file := None, size_field := Some ''small''\<rparr>)) = 5
   \<and> customization_fee (customization_fee_body
        (r\<lparr>custom_text := Some ''Hi'', design_file := Some (b # bs),
           size_field := Some ''xlarge''\<rparr>)) = 30"
proof (intro conjI)
  show "map customization_fee (compute_customization_fee self) =
     map (\<lambda>r. (if truthy (custom_text r) then 5 else 0)
             + (if truthy (design_file r) then 10 else 0)
             + (if size_field r = Some ''small'' then 0
                else if size_field r = Some ''medium'' then 5
                else if size_field r = Some ''large'' then 10
                else if size_field r = Some ''xlarge'' then 15
                else 0)) self"
    unfolding compute_customization_fee_map
    by (simp only: map_map o_def fee_of_body dict_get_size_fees)
qed (simp_all add: fee_of_body dict_get_size_fees)

subsection \<open>The total price\<close>

lemma compute_total_price_map:
  "compute_total_price pf lp self = map (total_price_body pf lp) self"
  by (induction self) simp_all

lemmas double_eval =
  round_double_def binary_exponent_def round_half_even_def log2_int.simps Let_def

lemma python_floats_simps:
  "float_add (python_floats ord) = double_add"
  "float_mul (python_floats ord) = double_mul"
  "float_of (python_floats ord) = round_double"
  "constraint_order (python_floats ord) = ord"
  by (simp_all add: python_floats_def)

lemma round_double_small:
  "round_double 0 = Finite 0"
  "round_double 1 = Finite 1"
  "round_double 2 = Finite 2"
  "round_double 3 = Finite 3"
  "round_double 5 = Finite 5"
  "round_double 10 = Finite 10"
  "round_double 15 = Finite 15"
  "round_double 25 = Finite 25"
  "round_double 30 = Finite 30"
  by (simp_all add: double_eval)

text \<open>
  Claim C2. On every row of the recordset, \<open>_compute_total_price\<close> stores
  \<open>(base_price + customization_fee) * quantity\<close> as Python computes it on floats: the
  float sum of the base price and the fee, times the float of the quantity.
  \<open>base_price\<close> is the list price that the price list gives for the row's product when
  the method runs. The equation holds for every quantity, so for every quantity above
  zero. With Python's floats, the price 19.99 with the fee 5.0 and the quantity 3 gives
  the float 74.97, and the price 1e16 with the fee 5.0 and the quantity 1 gives
  10000000000000004, the float nearest to the sum.
\<close>

theorem total_price_formula:
  "map total_price (compute_total_price pf lp self) =
     map (\<lambda>r. float_mul pf
                (float_add pf (base_price lp r) (float_of pf (customization_fee r)))
                (float_of pf (real_of_int (quantity r)))) self
   \<and> map (base_price lp) self = map (\<lambda>r. lp (product_id r)) self
   \<and> total_price (total_price_body (python_floats ord) (\<lambda>p. round_double (1999 / 100))
        (r\<lparr>customization_fee := 5, quantity := 3\<rparr>)) = round_double (7497 / 100)
   \<and> total_price (total_price_body (python_floats ord) (\<lambda>p. round_double 10000000000000000)
        (r\<lparr>customization_fee := 5, quantity := 1\<rparr>)) = Finite 10000000000000004"
proof (intro conjI)
  show "map total_price (compute_total_price pf lp self) =
     map (\<lambda>r. float_mul pf
                (float_add pf (base_price lp r) (float_of pf (customization_fee r)))
                (float_of pf (real_of_int (quantity r)))) self"
    by (simp add: compute_total_price_map total_price_body_def)
  show "map (base_price lp) self = map (\<lambda>r. lp (product_id r)) self"
    by (simp add: base_price_def)
  show "total_price (total_price_body (python_floats ord) (\<lambda>p. round_double (1999 / 100))
        (r\<lparr>customization_fee := 5, quantity := 3\<rparr>)) = round_double (7497 / 100)"
    by (simp add: total_price_body_def base_price_def python_floats_simps double_eval)
  show "total_price (total_price_body (python_floats ord) (\<lambda>p. round_double 10000000000000000)
        (r\<lparr>customization_fee := 5, quantity := 1\<rparr>)) = Finite 10000000000000004"
    by (simp add: total_price_body_def base_price_def python_floats_simps double_eval)
qed

subsection \<open>The workflow\<close>

lemma assign_state_only:
  "assign (empty_vals\<lparr>v_state := Some s\<rparr>) r = r\<lparr>state := s\<rparr>"
  by (simp add: assign_def empty_vals_def)

lemma and_then_simps:
  "and_then (Inl e) second = Inl e"
  "and_then (Inr u) second = second"
  by (simp_all add: and_then_def)

lemma state_only_triggers:
  "\<not> touches_fee (empty_vals\<lparr>v_state := Some s\<rparr>)"
  "\<not> touches_total (empty_vals\<lparr>v_state := Some s\<rparr>)"
  "validate_fields pf (empty_vals\<lparr>v_state := Some s\<rparr>) rows = Inr ()"
  by (simp_all add: touches_fee_def touches_total_def validate_fields_def empty_vals_def
      and_then_simps Let_def split: check_order.splits)

lemma orm_write_state_only:
  "orm_write pf lp (empty_vals\<lparr>v_state := Some s\<rparr>) self =
     Inr (map (\<lambda>r. r\<lparr>state := s\<rparr>) self)"
  by (simp add: orm_write_def recompute_def state_only_triggers assign_state_only)

lemma actions_eq:
  "action_confirm pf lp self = Inr (map (\<lambda>r. r\<lparr>state := Some ''confirmed''\<rparr>) self, True)"
  "action_start_production pf lp self =
     Inr (map (\<lambda>r. r\<lparr>state := Some ''production''\<rparr>) self, True)"
  "action_mark_done pf lp self = Inr (map (\<lambda>r. r\<lparr>state := Some ''done''\<rparr>) self, True)"
  "action_cancel pf lp self = Inr (map (\<lambda>r. r\<lparr>state := Some ''cancel''\<rparr>) self, True)"
  "action_reset_to_draft pf lp self = Inr (map (\<lambda>r. r\<lparr>state := Some ''draft''\<rparr>) self, True)"
  by (simp_all add: action_confirm_def action_start_production_def action_mark_done_def
      action_cancel_def action_reset_to_draft_def returning_def orm_write_state_only)

text \<open>
  Claim C3. Each of the five actions succeeds on every recordset, whatever the states
  of its rows: it returns \<open>True\<close> and leaves every row in the action's own state
  (confirmed, production, done, cancel, draft). So from any state, each of the five
  declared states is reached by one action.
\<close>

theorem transitions_unguarded:
  "(\<exists>rows. action_confirm pf lp self = Inr (rows, True)
        \<and> map state rows = map (\<lambda>r. Some ''confirmed'') self)
   \<and> (\<exists>rows. action_start_production pf lp self = Inr (rows, True)
        \<and> map state rows = map (\<lambda>r. Some ''production'') self)
   \<and> (\<exists>rows. action_mark_done pf lp self = Inr (rows, True)
        \<and> map state rows = map (\<lambda>r. Some ''done'') self)
   \<and> (\<exists>rows. action_cancel pf lp self = Inr (rows, True)
        \<and> map state rows = map (\<lambda>r. Some ''cancel'') self)
   \<and> (\<exists>rows. action_reset_to_draft pf lp self = Inr (rows, True)
        \<and> map state rows = map (\<lambda>r. Some ''draft'') self)
   \<and> (\<forall>t \<in> set state_selection. \<exists>act \<in> set transitions. \<exists>rows.
          act pf lp self = Inr (rows, True) \<and> map state rows = map (\<lambda>r. Some t) self)"
  by (simp add: actions_eq state_selection_def transitions_def o_def)

theorem transitions_unguarded_witness:
  "\<exists>act \<in> set transitions. \<exists>rows.
      act (python_floats QuantityFirst) (\<lambda>p. Finite 10)
        [new_row (python_floats QuantityFirst) empty_vals 1 1\<lparr>state := Some ''done''\<rparr>]
        = Inr (rows, True)
      \<and> map state rows = [Some ''draft'']"
  using transitions_unguarded [of "python_floats QuantityFirst" "\<lambda>p. Finite 10"
      "[new_row (python_floats QuantityFirst) empty_vals 1 1\<lparr>state := Some ''done''\<rparr>]"]
  by (simp add: state_selection_def)

text \<open>
  Claim C10. An action changes the field \<open>state\<close> and nothing else: each row it returns
  is the row it was given with \<open>state\<close> updated, so every other field, the stored
  \<open>customization_fee\<close> and \<open>total_price\<close> among them, is as before.
\<close>

theorem transitions_change_state_only:
  "action_confirm pf lp self = Inr (map (\<lambda>r. r\<lparr>state := Some ''confirmed''\<rparr>) self, True)
   \<and> action_start_production pf lp self =
        Inr (map (\<lambda>r. r\<lparr>state := Some ''production''\<rparr>) self, True)
   \<and> action_mark_done pf lp self = Inr (map (\<lambda>r. r\<lparr>state := Some ''done''\<rparr>) self, True)
   \<and> action_cancel pf lp self = Inr (map (\<lambda>r. r\<lparr>state := Some ''cancel''\<rparr>) self, True)
   \<and> action_reset_to_draft pf lp self = Inr (map (\<lambda>r. r\<lparr>state := Some ''draft''\<rparr>) self, True)
   \<and> map customization_fee (map (\<lambda>r. r\<lparr>state := s\<rparr>) self) = map customization_fee self
   \<and> map total_price (map (\<lambda>r. r\<lparr>state := s\<rparr>) self) = map total_price self"
  by (simp add: actions_eq o_def)

subsection \<open>The write path, row by row\<close>




lemma text_too_long_None: "\<not> text_too_long None"
  by (simp add: text_too_long_def)


lemma body_fields:
  "quantity (customization_fee_body r) = quantity r"
  "custom_text (customization_fee_body r) = custom_text r"
  "name (customization_fee_body r) = name r"
  "total_price (customization_fee_body r) = total_price r"
  "quantity (total_price_body pf lp r) = quantity r"
  "custom_text (total_price_body pf lp r) = custom_text r"
  "name (total_price_body pf lp r) = name r"
  by (simp_all add: total_price_body_def customization_fee_body_def Let_def)





lemma new_row_fields:
  "quantity (new_row pf vals c p) = get_or (v_quantity vals) 1"
  "custom_text (new_row pf vals c p) = get_or (v_custom_text vals) None"
  "name (new_row pf vals c p) = get_or (v_name vals) ''New''"
  by (simp_all add: new_row_def)

lemma orm_create_eq:
  "orm_create pf lp vals =
     (case v_customer_id vals of
        None \<Rightarrow> Inl (MissingRequired ''customer_id'')
      | Some c \<Rightarrow>
     (case v_product_id vals of
        None \<Rightarrow> Inl (MissingRequired ''product_id'')
      | Some p \<Rightarrow>
          if get_or (v_quantity vals) 1 \<le> 0
             \<and> (constraint_order pf = QuantityFirst
                  \<or> \<not> text_too_long (get_or (v_custom_text vals) None))
          then Inl (ValidationError ''Quantity must be greater than 0!'')
          else if text_too_long (get_or (v_custom_text vals) None)
          then Inl (ValidationError ''Custom text cannot exceed 50 characters!'')
          else Inr (total_price_body pf lp (customization_fee_body (new_row pf vals c p)))))"
  by (cases "constraint_order pf")
     (simp_all add: orm_create_def Let_def body_fields new_row_fields and_then_def
        split: option.splits)

lemma orm_create_name:
  "orm_create pf lp vals = Inr r \<Longrightarrow> name r = get_or (v_name vals) ''New''"
  by (auto simp: orm_create_eq body_fields new_row_fields split: option.splits if_splits)

lemma orm_create_isl_name:
  "isl (orm_create pf lp (vals\<lparr>v_name := x\<rparr>)) = isl (orm_create pf lp vals)"
  by (auto simp add: orm_create_eq split: option.splits)


lemma returning_simps:
  "returning b (Inl e) = Inl e"
  "returning b (Inr x) = Inr (x, b)"
  "isl (returning b res) = isl res"
  by (simp_all add: returning_def split: sum.splits)


lemma create_eq:
  "create nbc pf lp seq vals =
     (if get_or (v_name vals) ''New'' = ''New''
      then (orm_create pf lp
              (vals\<lparr>v_name := Some (py_or (fst (nbc seq ''printing.custom.order'')) ''New'')\<rparr>),
            snd (nbc seq ''printing.custom.order''))
      else (orm_create pf lp vals, seq))"
  by (simp add: create_def Let_def split_beta)


subsection \<open>The reference of a new order\<close>

text \<open>
  Claim C4. When \<open>vals\<close> has no \<open>name\<close>, or has the name \<open>'New'\<close>, \<open>create\<close> asks the
  sequence for the next value of the code \<open>printing.custom.order\<close> and hands the
  platform's create that value as the name; when the sequence gives nothing (\<open>False\<close>,
  or an empty string) the name is \<open>'New'\<close>. A name other than \<open>'New'\<close> is passed on as
  it is, and the sequence is left as it was. Whether the creation fails does not depend
  on the sequence: it fails exactly when the platform's create refuses the values.
\<close>

theorem create_reference:
  "(v_name vals = None \<or> v_name vals = Some ''New'' \<longrightarrow>
      create nbc pf lp seq vals =
        (orm_create pf lp
           (vals\<lparr>v_name := Some (py_or (fst (nbc seq ''printing.custom.order'')) ''New'')\<rparr>),
         snd (nbc seq ''printing.custom.order''))
      \<and> (\<forall>r g. create nbc pf lp seq vals = (Inr r, g) \<longrightarrow>
            name r = (case fst (nbc seq ''printing.custom.order'') of
                        None \<Rightarrow> ''New''
                      | Some s \<Rightarrow> if s = [] then ''New'' else s)))
   \<and> (v_name vals = Some n \<and> n \<noteq> ''New'' \<longrightarrow>
        create nbc pf lp seq vals = (orm_create pf lp vals, seq)
        \<and> (\<forall>r g. create nbc pf lp seq vals = (Inr r, g) \<longrightarrow> name r = n \<and> g = seq))
   \<and> isl (fst (create nbc pf lp seq vals)) = isl (orm_create pf lp vals)"
  by (auto simp: create_eq py_or_def orm_create_isl_name
      dest!: orm_create_name split: option.splits)

theorem create_reference_witness:
  "(\<exists>r. create (\<lambda>s c. (Some ''PRINT/001'', Suc s)) (python_floats QuantityFirst)
            (\<lambda>p. Finite 10) 0
            (empty_vals\<lparr>v_customer_id := Some 1, v_product_id := Some 1\<rparr>) = (Inr r, 1)
        \<and> name r = ''PRINT/001'')
   \<and> (\<exists>r. create (\<lambda>s c. (None, s)) (python_floats QuantityFirst) (\<lambda>p. Finite 10) (0::nat)
            (empty_vals\<lparr>v_name := Some ''New'', v_customer_id := Some 1,
               v_product_id := Some 1\<rparr>) = (Inr r, 0)
        \<and> name r = ''New'')
   \<and> (\<exists>r. create (\<lambda>s c. (Some ''PRINT/001'', Suc s)) (python_floats QuantityFirst)
            (\<lambda>p. Finite 10) 0
            (empty_vals\<lparr>v_name := Some ''ABC'', v_customer_id := Some 1,
               v_product_id := Some 1\<rparr>) = (Inr r, 0)
        \<and> name r = ''ABC'')"
proof -
  let ?gen = "\<lambda>(s::nat) (c::string). (Some ''PRINT/001'', Suc s)"
  let ?none = "\<lambda>(s::nat) (c::string). (None :: string option, s)"
  let ?P = "python_floats QuantityFirst"
  let ?lp = "\<lambda>p::nat. Finite 10"
  let ?v1 = "empty_vals\<lparr>v_customer_id := Some 1, v_product_id := Some 1\<rparr>"
  let ?v2 = "empty_vals\<lparr>v_name := Some ''New'', v_customer_id := Some 1,
               v_product_id := Some 1\<rparr>"
  let ?v3 = "empty_vals\<lparr>v_name := Some ''ABC'', v_customer_id := Some 1,
               v_product_id := Some 1\<rparr>"
  note c1 = create_reference [where vals = ?v1 and nbc = ?gen and pf = ?P and lp = ?lp
      and seq = 0]
  note c2 = create_reference [where vals = ?v2 and nbc = ?none and pf = ?P and lp = ?lp
      and seq = 0]
  note c3 = create_reference [where vals = ?v3 and nbc = ?gen and pf = ?P and lp = ?lp
      and seq = 0 and n = "''ABC''"]
  have v1: "v_name ?v1 = None \<or> v_name ?v1 = Some ''New''"
    by (simp add: empty_vals_def)
  have v2: "v_name ?v2 = None \<or> v_name ?v2 = Some ''New''"
    by (simp add: empty_vals_def)
  have v3: "v_name ?v3 = Some ''ABC'' \<and> ''ABC'' \<noteq> ''New''"
    by (simp add: empty_vals_def)
  obtain r1 where r1: "create ?gen ?P ?lp 0 ?v1 = (Inr r1, 1)"
    using c1 [THEN conjunct1, rule_format, OF v1, THEN conjunct1]
    by (simp add: orm_create_eq empty_vals_def text_too_long_None py_or_def)
  have n1: "name r1 = ''PRINT/001''"
    using c1 [THEN conjunct1, rule_format, OF v1, THEN conjunct2, rule_format, OF r1]
    by simp
  obtain r2 where r2: "create ?none ?P ?lp 0 ?v2 = (Inr r2, 0)"
    using c2 [THEN conjunct1, rule_format, OF v2, THEN conjunct1]
    by (simp add: orm_create_eq empty_vals_def text_too_long_None py_or_def)
  have n2: "name r2 = ''New''"
    using c2 [THEN conjunct1, rule_format, OF v2, THEN conjunct2, rule_format, OF r2]
    by simp
  obtain r3 where r3: "create ?gen ?P ?lp 0 ?v3 = (Inr r3, 0)"
    using c3 [THEN conjunct2, THEN conjunct1, rule_format, OF v3, THEN conjunct1]
    by (simp add: orm_create_eq empty_vals_def text_too_long_None)
  have n3: "name r3 = ''ABC''"
    using c3 [THEN conjunct2, THEN conjunct1, rule_format, OF v3, THEN conjunct2,
        rule_format, OF r3]
    by simp
  have A: "\<exists>r. create ?gen ?P ?lp 0 ?v1 = (Inr r, 1) \<and> name r = ''PRINT/001''"
    using r1 n1 by blast
  have B: "\<exists>r. create ?none ?P ?lp 0 ?v2 = (Inr r, 0) \<and> name r = ''New''"
    using r2 n2 by blast
  have C: "\<exists>r. create ?gen ?P ?lp 0 ?v3 = (Inr r, 0) \<and> name r = ''ABC''"
    using r3 n3 by blast
  from A B C show ?thesis by (intro conjI)
qed

subsection \<open>The two validation rules\<close>







subsection \<open>All or nothing\<close>






subsection \<open>The stored computed fields\<close>













subsection \<open>The reference after creation\<close>






end
